theory Spec2Isabelle
  imports Main "HOL-Library.Word"
begin

section \<open>Values decoded from JSON\<close>

text \<open>
  A Python float is a finite binary fraction, an infinity or NaN. \<open>Finite m e\<close> stands for
  \<open>m * 2 ^ e\<close>. The program never computes with the coordinates, it only tests their type,
  so no arithmetic on them is needed.
\<close>

datatype pyfloat = Finite int int | PosInf | NegInf | NaN

fun isfinite :: "pyfloat \<Rightarrow> bool" where
  "isfinite (Finite m e) = True"
| "isfinite PosInf = False"
| "isfinite NegInf = False"
| "isfinite NaN = False"

text \<open>
  What \<open>request.get_json()\<close> and \<open>response.json()\<close> hand to the program: \<open>None\<close>, a bool,
  an int, a float, a string, a list or a dict with string keys.
\<close>

datatype pyval =
    PNone
  | PBool bool
  | PInt int
  | PFloat pyfloat
  | PStr string
  | PList "pyval list"
  | PDict "(string \<times> pyval) list"

type_synonym pydict = "(string \<times> pyval) list"

text \<open>\<open>d.get(key, default)\<close>: the default only when the key is absent.\<close>

definition dict_get :: "pydict \<Rightarrow> string \<Rightarrow> pyval \<Rightarrow> pyval" where
  "dict_get d k dflt = (case map_of d k of None \<Rightarrow> dflt | Some v \<Rightarrow> v)"

text \<open>\<open>isinstance(v, float)\<close>: a bool or an int is not a float.\<close>

fun isinstance_float :: "pyval \<Rightarrow> bool" where
  "isinstance_float (PFloat f) = True"
| "isinstance_float v = False"

text \<open>Python's truth value of an object, as \<open>if response:\<close> tests it.\<close>

fun truthy :: "pyval \<Rightarrow> bool" where
  "truthy PNone = False"
| "truthy (PBool b) = b"
| "truthy (PInt n) = (n \<noteq> 0)"
| "truthy (PFloat (Finite m e)) = (m \<noteq> 0)"
| "truthy (PFloat f) = True"
| "truthy (PStr s) = (s \<noteq> [])"
| "truthy (PList xs) = (xs \<noteq> [])"
| "truthy (PDict kvs) = (kvs \<noteq> [])"

section \<open>The tables\<close>

text \<open>
  The primary key \<open>id\<close> of the three models is named \<open>cid\<close>, \<open>did\<close> and \<open>pid\<close>. An
  integer column holds a signed integer of 64 bits. The keys of cars and positions are
  numbers the database itself gives out, and they are kept as integers here; the key of a
  driver is what a number sent by a client is compared with, and it has the width of the
  column. A \<open>datetime\<close> is a point on the clock's scale.
\<close>

type_synonym datetime = int

record CarModel =
  cid :: int
  license_plate :: string
  driver_id :: "int option"

record DriverModel =
  did :: "64 word"
  name :: string

record PositionModel =
  pid :: int
  car_id :: "int option"
  latitude :: pyfloat
  longitude :: pyfloat
  date :: datetime
  address :: "pyval option"

text \<open>The database: each table is the list of its rows, in the order they were inserted.\<close>

record db =
  cars :: "CarModel list"
  drivers :: "DriverModel list"
  positions :: "PositionModel list"

text \<open>\<open>cls.query.filter_by(**kwargs).first()\<close>: the first row that matches, or \<open>None\<close>.\<close>

definition find_by_attribute :: "('a \<Rightarrow> bool) \<Rightarrow> 'a list \<Rightarrow> 'a option" where
  "find_by_attribute P rows = List.find P rows"

text \<open>
  The key a commit gives to a new row of an integer primary key column: one more than the
  largest key of the table, 1 in an empty table.
\<close>

fun max_id :: "int list \<Rightarrow> int" where
  "max_id [] = 0"
| "max_id [k] = k"
| "max_id (k # ks) = max k (max_id ks)"

definition next_id :: "int list \<Rightarrow> int" where
  "next_id ks = max_id ks + 1"

text \<open>\<open>car.driver_id = v; db.session.commit()\<close>: the row of that key gets the new driver.\<close>

definition set_driver :: "int \<Rightarrow> int option \<Rightarrow> CarModel list \<Rightarrow> CarModel list" where
  "set_driver k v rows = map (\<lambda>c. if cid c = k then c\<lparr>driver_id := v\<rparr> else c) rows"

text \<open>\<open>db.session.delete(car); db.session.commit()\<close>: the row of that key goes.\<close>

definition delete_car :: "int \<Rightarrow> CarModel list \<Rightarrow> CarModel list" where
  "delete_car k rows = filter (\<lambda>c. cid c \<noteq> k) rows"

section \<open>Responses\<close>

text \<open>
  Exceptions that no handler of the program catches; the request then ends with them and
  nothing is committed. The last three come from the database: a Python int that does not
  fit the 64 bits of an integer parameter (\<open>OverflowError\<close>), a parameter of a type that
  cannot be bound (\<open>InterfaceError\<close>), and a row that breaks a constraint of its table
  (\<open>IntegrityError\<close>).
\<close>

datatype pyexc =
    RequestException
  | IndexError
  | KeyError
  | TypeError
  | AttributeError
  | OverflowError
  | InterfaceError
  | IntegrityError

text \<open>
  The error responses, named as the specification names them:
  \<open>CarNotFound\<close> is \<open>'Car not found'\<close> (404), \<open>DriverNotFound\<close> is \<open>'Driver not found'\<close>
  (400 from \<open>Car\<close>, 404 from \<open>AssignDriver\<close>), \<open>DuplicateKey\<close> is \<open>'Car already exists'\<close>
  (400), \<open>AssignmentMismatch\<close> is \<open>'This assignment does not exist'\<close> (404) and
  \<open>InvalidCoordinates\<close> is \<open>'Invalid latitude or longitude'\<close> (400).
\<close>

datatype error =
    CarNotFound
  | DriverNotFound
  | DuplicateKey
  | AssignmentMismatch
  | InvalidCoordinates
  | Unhandled pyexc

datatype reply =
    Message string
  | CarJson CarModel
  | PositionJson PositionModel
  | CarsJson "CarModel list"
  | PositionsJson "PositionModel list"

type_synonym response = "error + reply"

section \<open>The geocoding lookup\<close>

text \<open>
  \<open>get(url).json()\<close> either raises (no connection, a timeout, a body that is not JSON) or
  gives the decoded body. The provider is a function of the two coordinates in the URL.
\<close>

datatype geo_reply = RequestFails | ReplyJson pyval

type_synonym geocoder = "pyfloat \<Rightarrow> pyfloat \<Rightarrow> geo_reply"

text \<open>\<open>response[0]\<close>\<close>

fun subscript0 :: "pyval \<Rightarrow> pyexc + pyval" where
  "subscript0 (PList []) = Inl IndexError"
| "subscript0 (PList (x # xs)) = Inr x"
| "subscript0 (PDict kvs) = Inl KeyError"
| "subscript0 (PStr []) = Inl IndexError"
| "subscript0 (PStr (c # cs)) = Inr (PStr [c])"
| "subscript0 v = Inl TypeError"

text \<open>\<open>x.get('display_name', '')\<close>\<close>

fun get_display_name :: "pyval \<Rightarrow> pyexc + pyval" where
  "get_display_name (PDict kvs) = Inr (dict_get kvs ''display_name'' (PStr ''''))"
| "get_display_name v = Inl AttributeError"

definition resolve_address :: "geocoder \<Rightarrow> PositionModel \<Rightarrow> pyexc + PositionModel" where
  "resolve_address geo self =
     (case geo (latitude self) (longitude self) of
        RequestFails \<Rightarrow> Inl RequestException
      | ReplyJson response \<Rightarrow>
          if truthy response then
            (case subscript0 response of
               Inl e \<Rightarrow> Inl e
             | Inr first \<Rightarrow>
                 (case get_display_name first of
                    Inl e \<Rightarrow> Inl e
                  | Inr a \<Rightarrow> Inr (self\<lparr>address := Some a\<rparr>)))
          else Inr (self\<lparr>address := Some (PStr '''')\<rparr>))"

section \<open>The resources\<close>

text \<open>
  Every handler takes the database and gives the response together with the database after
  the request. The body of a request is a JSON object. Its \<open>driver_id\<close> is \<open>None\<close> when
  the key is absent or null and \<open>Some n\<close> for the integer \<open>n\<close>, of any size; the
  \<open>driver_id\<close> of a URL is an integer of any size that is not negative.
\<close>

definition has_plate :: "string \<Rightarrow> CarModel \<Rightarrow> bool" where
  "has_plate plate c = (license_plate c = plate)"

text \<open>The Python ints that an integer parameter of a statement takes.\<close>

definition in_int64 :: "int \<Rightarrow> bool" where
  "in_int64 n = (- (2 ^ 63) \<le> n \<and> n < 2 ^ 63)"

definition has_id :: "int \<Rightarrow> DriverModel \<Rightarrow> bool" where
  "has_id k d = (sint (did d) = k)"

text \<open>
  \<open>DriverModel.find_by_attribute(id=k)\<close>: the number is bound as a parameter of the query
  before any row is looked at, and binding a number outside 64 bits raises.
\<close>

definition find_driver :: "db \<Rightarrow> int \<Rightarrow> pyexc + DriverModel option" where
  "find_driver s k =
     (if in_int64 k then Inr (find_by_attribute (has_id k) (drivers s))
      else Inl OverflowError)"

text \<open>
  \<open>if driver_id and not DriverModel.find_by_attribute(id=driver_id)\<close>: how the request
  ends there, if it does. The lookup is made only for a value that counts as true.
\<close>

definition check_driver :: "db \<Rightarrow> int option \<Rightarrow> error option" where
  "check_driver s v =
     (case v of
        None \<Rightarrow> None
      | Some k \<Rightarrow>
          if truthy (PInt k) then
            (case find_driver s k of
               Inl e \<Rightarrow> Some (Unhandled e)
             | Inr None \<Rightarrow> Some DriverNotFound
             | Inr (Some driver) \<Rightarrow> None)
          else None)"


definition Car_post :: "db \<Rightarrow> string \<Rightarrow> int option \<Rightarrow> response \<times> db" where
  "Car_post s plate v =
     (if find_by_attribute (has_plate plate) (cars s) \<noteq> None then (Inl DuplicateKey, s)
      else
        (case check_driver s v of
           Some e \<Rightarrow> (Inl e, s)
         | None \<Rightarrow>
             let car = \<lparr>cid = next_id (map cid (cars s)), license_plate = plate,
                        driver_id = v\<rparr>
             in (Inr (CarJson car), s\<lparr>cars := cars s @ [car]\<rparr>)))"

definition Car_put :: "db \<Rightarrow> string \<Rightarrow> int option \<Rightarrow> response \<times> db" where
  "Car_put s plate v =
     (case find_by_attribute (has_plate plate) (cars s) of
        None \<Rightarrow> (Inl CarNotFound, s)
      | Some car \<Rightarrow>
          (case check_driver s v of
             Some e \<Rightarrow> (Inl e, s)
           | None \<Rightarrow>
               (Inr (CarJson (car\<lparr>driver_id := v\<rparr>)),
                s\<lparr>cars := set_driver (cid car) v (cars s)\<rparr>)))"

definition Car_delete :: "db \<Rightarrow> string \<Rightarrow> response \<times> db" where
  "Car_delete s plate =
     (case find_by_attribute (has_plate plate) (cars s) of
        None \<Rightarrow> (Inl CarNotFound, s)
      | Some car \<Rightarrow>
          (Inr (Message ''Car deleted''), s\<lparr>cars := delete_car (cid car) (cars s)\<rparr>))"

definition CarList_get :: "db \<Rightarrow> response" where
  "CarList_get s = Inr (CarsJson (cars s))"

text \<open>
  What binding the address as a parameter of the \<open>INSERT\<close> raises, if anything: a list or
  a dict cannot be bound (\<open>InterfaceError\<close>; \<open>ProgrammingError\<close> in later versions of the
  driver), an int has to fit 64 bits.
\<close>

fun bind_error :: "pyval \<Rightarrow> pyexc option" where
  "bind_error (PInt n) = (if in_int64 n then None else Some OverflowError)"
| "bind_error (PList xs) = Some InterfaceError"
| "bind_error (PDict kvs) = Some InterfaceError"
| "bind_error v = None"

text \<open>
  \<open>db.session.add(car_position); db.session.commit()\<close>: what the commit raises, if
  anything. The parameters are bound first. A NaN is stored as \<open>NULL\<close>, which the columns
  \<open>latitude\<close> and \<open>longitude\<close> (\<open>nullable=False\<close>) refuse; the infinities are stored.
\<close>

definition commit_error :: "PositionModel \<Rightarrow> pyexc option" where
  "commit_error p =
     (case (case address p of None \<Rightarrow> None | Some a \<Rightarrow> bind_error a) of
        Some e \<Rightarrow> Some e
      | None \<Rightarrow>
          if latitude p = NaN \<or> longitude p = NaN then Some IntegrityError else None)"

text \<open>
  \<open>CarPosition.post\<close>: \<open>data\<close> is the JSON object of the request, \<open>now\<close> the value of
  \<open>datetime.now()\<close>. The key of the new row is the one the commit assigns; nothing reads it
  before. The stored row keeps the address as the handler set it.
\<close>

definition CarPosition_post ::
    "db \<Rightarrow> string \<Rightarrow> pydict \<Rightarrow> datetime \<Rightarrow> geocoder \<Rightarrow> response \<times> db" where
  "CarPosition_post s plate data now geo =
     (case find_by_attribute (has_plate plate) (cars s) of
        None \<Rightarrow> (Inl CarNotFound, s)
      | Some car \<Rightarrow>
          (case (dict_get data ''latitude'' PNone, dict_get data ''longitude'' PNone) of
             (PFloat la, PFloat lo) \<Rightarrow>
               (case resolve_address geo
                       \<lparr>pid = next_id (map pid (positions s)), car_id = Some (cid car),
                        latitude = la, longitude = lo, date = now, address = None\<rparr> of
                  Inl e \<Rightarrow> (Inl (Unhandled e), s)
                | Inr car_position \<Rightarrow>
                    (case commit_error car_position of
                       Some e \<Rightarrow> (Inl (Unhandled e), s)
                     | None \<Rightarrow>
                         (Inr (Message ''Position saved''),
                          s\<lparr>positions := positions s @ [car_position]\<rparr>)))
           | _ \<Rightarrow> (Inl InvalidCoordinates, s)))"

definition CarPositions_get :: "db \<Rightarrow> string \<Rightarrow> response" where
  "CarPositions_get s plate =
     (case find_by_attribute (has_plate plate) (cars s) of
        None \<Rightarrow> Inl CarNotFound
      | Some car \<Rightarrow>
          Inr (PositionsJson (filter (\<lambda>p. car_id p = Some (cid car)) (positions s))))"

definition AssignDriver_post :: "db \<Rightarrow> string \<Rightarrow> int \<Rightarrow> response \<times> db" where
  "AssignDriver_post s plate k =
     (case find_by_attribute (has_plate plate) (cars s) of
        None \<Rightarrow> (Inl CarNotFound, s)
      | Some car \<Rightarrow>
          (case find_driver s k of
             Inl e \<Rightarrow> (Inl (Unhandled e), s)
           | Inr None \<Rightarrow> (Inl DriverNotFound, s)
           | Inr (Some driver) \<Rightarrow>
               (Inr (Message ''Driver assigned''),
                s\<lparr>cars := set_driver (cid car) (Some k) (cars s)\<rparr>)))"

definition AssignDriver_delete :: "db \<Rightarrow> string \<Rightarrow> int \<Rightarrow> response \<times> db" where
  "AssignDriver_delete s plate k =
     (case find_by_attribute (has_plate plate) (cars s) of
        None \<Rightarrow> (Inl CarNotFound, s)
      | Some car \<Rightarrow>
          if driver_id car \<noteq> Some k then (Inl AssignmentMismatch, s)
          else (Inr (Message ''Driver assignment deleted''),
                s\<lparr>cars := set_driver (cid car) None (cars s)\<rparr>))"

text \<open>The row a successful \<open>CarPosition.post\<close> stores, with the address \<open>a\<close> it resolved.\<close>

definition new_position ::
    "db \<Rightarrow> CarModel \<Rightarrow> pyfloat \<Rightarrow> pyfloat \<Rightarrow> datetime \<Rightarrow> pyval \<Rightarrow> PositionModel" where
  "new_position s car la lo now a =
     \<lparr>pid = next_id (map pid (positions s)), car_id = Some (cid car),
      latitude = la, longitude = lo, date = now, address = Some a\<rparr>"

section \<open>Example data\<close>

definition car_abc :: CarModel where
  "car_abc = \<lparr>cid = 1, license_plate = ''ABC123'', driver_id = None\<rparr>"

definition car_xyz :: CarModel where
  "car_xyz = \<lparr>cid = 2, license_plate = ''XYZ999'', driver_id = Some 1\<rparr>"

definition alice :: DriverModel where
  "alice = \<lparr>did = 1, name = ''Alice''\<rparr>"

definition pos_a :: PositionModel where
  "pos_a = \<lparr>pid = 1, car_id = Some 2, latitude = Finite 5091 (-7),
            longitude = Finite (-9473) (-7), date = 100, address = Some (PStr '''')\<rparr>"

definition pos_b :: PositionModel where
  "pos_b = \<lparr>pid = 2, car_id = Some 2, latitude = Finite 5092 (-7),
            longitude = Finite (-9474) (-7), date = 200,
            address = Some (PStr ''Broadway, New York'')\<rparr>"

definition db_empty :: db where
  "db_empty = \<lparr>cars = [], drivers = [], positions = []\<rparr>"

definition db_one :: db where
  "db_one = \<lparr>cars = [car_abc], drivers = [alice], positions = []\<rparr>"

definition db_two :: db where
  "db_two = \<lparr>cars = [car_abc, car_xyz], drivers = [alice], positions = [pos_a, pos_b]\<rparr>"

text \<open>Three providers: no result, no connection, one result.\<close>

definition geo_empty :: geocoder where
  "geo_empty la lo = ReplyJson (PList [])"

definition geo_down :: geocoder where
  "geo_down la lo = RequestFails"

definition geo_found :: geocoder where
  "geo_found la lo =
     ReplyJson (PList [PDict [(''display_name'', PStr ''Broadway, New York'')]])"

text \<open>A request body with the two coordinates and a \<open>date\<close> of the client's.\<close>

definition coords :: "pyval \<Rightarrow> pyval \<Rightarrow> pydict" where
  "coords la lo = [(''latitude'', la), (''longitude'', lo), (''date'', PStr ''1999-12-31'')]"

lemmas example_defs =
  car_abc_def car_xyz_def alice_def pos_a_def pos_b_def db_empty_def db_one_def db_two_def
  geo_empty_def geo_down_def geo_found_def coords_def

lemmas lookup_defs = find_by_attribute_def has_plate_def has_id_def dict_get_def

lemmas storage_defs = in_int64_def find_driver_def check_driver_def commit_error_def

section \<open>Looking up rows\<close>

lemma find_has_plate:
  "find_by_attribute (has_plate p) rows = Some c \<Longrightarrow> c \<in> set rows \<and> license_plate c = p"
  by (induction rows) (auto simp: find_by_attribute_def has_plate_def split: if_splits)

lemma find_plate_None:
  "find_by_attribute (has_plate p) rows = None \<longleftrightarrow> p \<notin> set (map license_plate rows)"
  by (induction rows) (auto simp: find_by_attribute_def has_plate_def)

lemma find_append_plate:
  "find_by_attribute (has_plate p) (rows @ [c]) =
     (case find_by_attribute (has_plate p) rows of
        None \<Rightarrow> (if license_plate c = p then Some c else None)
      | Some x \<Rightarrow> Some x)"
  by (induction rows) (auto simp: find_by_attribute_def has_plate_def)

lemma find_set_driver:
  "find_by_attribute (has_plate p) (set_driver k v rows) =
     map_option (\<lambda>c. if cid c = k then c\<lparr>driver_id := v\<rparr> else c)
       (find_by_attribute (has_plate p) rows)"
  by (induction rows) (auto simp: find_by_attribute_def set_driver_def has_plate_def)

lemma set_driver_twice: "set_driver k v (set_driver k v rows) = set_driver k v rows"
  by (induction rows) (auto simp: set_driver_def)

lemma set_driver_keys: "map cid (set_driver k v rows) = map cid rows"
  by (induction rows) (auto simp: set_driver_def)

lemma set_driver_plates: "map license_plate (set_driver k v rows) = map license_plate rows"
  by (induction rows) (auto simp: set_driver_def)

subsection \<open>Primary keys\<close>

lemma max_id_ge: "k \<in> set ks \<Longrightarrow> k \<le> max_id ks"
  by (induction ks rule: max_id.induct) auto

lemma next_id_fresh: "next_id ks \<notin> set ks"
proof
  assume "next_id ks \<in> set ks"
  then have "next_id ks \<le> max_id ks" by (rule max_id_ge)
  then show False by (simp add: next_id_def)
qed

lemma Car_post_keeps_keys:
  "distinct (map cid (cars s)) \<Longrightarrow> distinct (map cid (cars (snd (Car_post s p v))))"
  using next_id_fresh [of "map cid (cars s)"]
  by (simp add: Car_post_def Let_def split: option.splits)

text \<open>A driver that is found has a key of 64 bits.\<close>

lemma sint_in_int64: "in_int64 (sint (w :: 64 word))"
  using sint_ge [of w] sint_lt [of w] by (simp add: in_int64_def)

lemma found_driver_in_range:
  "find_by_attribute (has_id k) rows = Some d \<Longrightarrow> in_int64 k"
  by (auto simp: find_by_attribute_def find_Some_iff has_id_def sint_in_int64)

lemma find_driver_found:
  "find_by_attribute (has_id k) (drivers s) = Some d \<Longrightarrow> find_driver s k = Inr (Some d)"
  by (simp add: find_driver_def found_driver_in_range)

lemma delete_car_keeps_keys:
  "distinct (map cid rows) \<Longrightarrow> distinct (map cid (delete_car k rows))"
  by (simp add: delete_car_def distinct_map_filter)

lemma delete_car_remove1:
  "distinct (map cid rows) \<Longrightarrow> car \<in> set rows \<Longrightarrow> delete_car (cid car) rows = remove1 car rows"
proof (induction rows)
  case Nil
  then show ?case by simp
next
  case (Cons r rows)
  show ?case
  proof (cases "r = car")
    case True
    with Cons.prems have "cid car \<notin> cid ` set rows" by simp
    then have "\<forall>c\<in>set rows. cid c \<noteq> cid car" by (metis imageI)
    then have "filter (\<lambda>c. cid c \<noteq> cid car) rows = rows" by (simp add: filter_id_conv)
    with True show ?thesis by (simp add: delete_car_def)
  next
    case False
    with Cons.prems have "cid r \<noteq> cid car" by force
    with Cons False show ?thesis by (simp add: delete_car_def)
  qed
qed

subsection \<open>The address lookup and the ingestion\<close>

lemma resolve_address_cases:
  "(\<exists>e. resolve_address geo p = Inl e) \<or>
   (\<exists>a. resolve_address geo p = Inr (p\<lparr>address := Some a\<rparr>))"
  by (auto simp: resolve_address_def split: geo_reply.splits sum.splits)

lemma isinstance_float_iff: "isinstance_float v \<longleftrightarrow> (\<exists>f. v = PFloat f)"
  by (cases v) auto

lemma ingest_float_coordinates:
  assumes "CarPosition_post s plate data now geo = (Inr r, s')"
  shows "\<exists>car la lo a.
           find_by_attribute (has_plate plate) (cars s) = Some car \<and>
           dict_get data ''latitude'' PNone = PFloat la \<and>
           dict_get data ''longitude'' PNone = PFloat lo \<and>
           r = Message ''Position saved'' \<and>
           s' = s\<lparr>positions := positions s @ [new_position s car la lo now a]\<rparr>"
proof -
  from assms obtain car where car: "find_by_attribute (has_plate plate) (cars s) = Some car"
    by (auto simp: CarPosition_post_def split: option.splits)
  from assms car obtain la lo where
      la: "dict_get data ''latitude'' PNone = PFloat la" and
      lo: "dict_get data ''longitude'' PNone = PFloat lo"
    by (cases "dict_get data ''latitude'' PNone"; cases "dict_get data ''longitude'' PNone")
       (simp_all add: CarPosition_post_def)
  let ?p = "\<lparr>pid = next_id (map pid (positions s)), car_id = Some (cid car),
             latitude = la, longitude = lo, date = now, address = None\<rparr>"
  from resolve_address_cases [of geo ?p] assms car la lo
  obtain a where "resolve_address geo ?p = Inr (?p\<lparr>address := Some a\<rparr>)"
    by (auto simp: CarPosition_post_def)
  with assms car la lo show ?thesis
    by (auto simp: CarPosition_post_def new_position_def split: option.splits)
qed

lemma ingest_error_keeps_db:
  "fst (CarPosition_post s plate data now geo) = Inl e \<Longrightarrow>
   snd (CarPosition_post s plate data now geo) = s"
  by (auto simp: CarPosition_post_def split: option.splits pyval.splits sum.splits)

lemma ingest_positions:
  "positions (snd (CarPosition_post s plate data now geo)) = positions s \<or>
   (\<exists>p. positions (snd (CarPosition_post s plate data now geo)) = positions s @ [p] \<and>
        date p = now)"
proof (cases "fst (CarPosition_post s plate data now geo)")
  case (Inl e)
  then show ?thesis by (simp add: ingest_error_keeps_db)
next
  case (Inr r)
  then have "CarPosition_post s plate data now geo =
      (Inr r, snd (CarPosition_post s plate data now geo))"
    by (metis prod.collapse)
  from ingest_float_coordinates [OF this] show ?thesis
    by (auto simp: new_position_def)
qed

text \<open>
  A position ingested at a time not before the stored ones keeps the table in ascending
  order of \<open>date\<close>.
\<close>

lemma ingest_keeps_date_order:
  assumes "sorted (map date (positions s))" and "\<forall>p\<in>set (positions s). date p \<le> now"
  shows "sorted (map date (positions (snd (CarPosition_post s plate data now geo))))"
  using ingest_positions [of s plate data now geo] assms
  by (auto simp: sorted_append)

section \<open>Ingesting a position\<close>

text \<open>
  An infinite latitude is a float: the position is stored. NaN is a float as well, and the
  request is not refused for its coordinates; it ends later, when the commit fails.
\<close>

theorem ingest_accepts_non_finite:
  "\<not> isfinite NaN \<and> \<not> isfinite PosInf \<and>
   fst (CarPosition_post db_one ''ABC123'' (coords (PFloat NaN) (PFloat (Finite 3 1))) 100
          geo_empty) \<noteq> Inl InvalidCoordinates \<and>
   CarPosition_post db_one ''ABC123'' (coords (PFloat PosInf) (PFloat (Finite 3 1))) 100
       geo_empty =
     (Inr (Message ''Position saved''),
      db_one\<lparr>positions :=
        [new_position db_one car_abc PosInf (Finite 3 1) 100 (PStr '''')]\<rparr>)"
  by (simp add: CarPosition_post_def resolve_address_def new_position_def commit_error_def
      example_defs lookup_defs)

text \<open>
  C1, as the code has it. For a known plate, ingestion fails with InvalidCoordinates and
  leaves the database unchanged whenever the latitude or the longitude is missing, null or
  not of type float (an integer, a bool, a string); whenever both are floats, finite or
  not, it does not fail with InvalidCoordinates.
\<close>

theorem ingest_rejects_non_float:
  assumes "find_by_attribute (has_plate plate) (cars s) \<noteq> None"
  shows "(\<not> isinstance_float (dict_get data ''latitude'' PNone) \<or>
          \<not> isinstance_float (dict_get data ''longitude'' PNone) \<longrightarrow>
            CarPosition_post s plate data now geo = (Inl InvalidCoordinates, s)) \<and>
         (isinstance_float (dict_get data ''latitude'' PNone) \<and>
          isinstance_float (dict_get data ''longitude'' PNone) \<longrightarrow>
            fst (CarPosition_post s plate data now geo) \<noteq> Inl InvalidCoordinates)"
proof -
  from assms obtain car where car: "find_by_attribute (has_plate plate) (cars s) = Some car"
    by auto
  show ?thesis
  proof (intro conjI impI)
    assume "\<not> isinstance_float (dict_get data ''latitude'' PNone) \<or>
            \<not> isinstance_float (dict_get data ''longitude'' PNone)"
    then show "CarPosition_post s plate data now geo = (Inl InvalidCoordinates, s)"
      using car
      by (cases "dict_get data ''latitude'' PNone"; cases "dict_get data ''longitude'' PNone")
         (simp_all add: CarPosition_post_def)
  next
    assume "isinstance_float (dict_get data ''latitude'' PNone) \<and>
            isinstance_float (dict_get data ''longitude'' PNone)"
    then obtain la lo where "dict_get data ''latitude'' PNone = PFloat la"
        "dict_get data ''longitude'' PNone = PFloat lo"
      by (auto simp: isinstance_float_iff)
    then show "fst (CarPosition_post s plate data now geo) \<noteq> Inl InvalidCoordinates"
      using car by (simp add: CarPosition_post_def split: sum.splits option.splits)
  qed
qed

theorem ingest_rejects_non_float_witness:
  "find_by_attribute (has_plate ''ABC123'') (cars db_one) \<noteq> None \<and>
   \<not> isinstance_float (dict_get [(''longitude'', PFloat (Finite 3 1))] ''latitude'' PNone) \<and>
   CarPosition_post db_one ''ABC123'' [(''longitude'', PFloat (Finite 3 1))] 100 geo_found =
     (Inl InvalidCoordinates, db_one) \<and>
   \<not> isinstance_float (dict_get (coords (PInt 45) (PFloat (Finite 3 1))) ''latitude'' PNone) \<and>
   CarPosition_post db_one ''ABC123'' (coords (PInt 45) (PFloat (Finite 3 1))) 100 geo_found =
     (Inl InvalidCoordinates, db_one) \<and>
   isinstance_float (dict_get (coords (PFloat NaN) (PFloat (Finite 3 1))) ''latitude'' PNone) \<and>
   isinstance_float (dict_get (coords (PFloat NaN) (PFloat (Finite 3 1))) ''longitude'' PNone) \<and>
   fst (CarPosition_post db_one ''ABC123'' (coords (PFloat NaN) (PFloat (Finite 3 1))) 100
          geo_found) \<noteq> Inl InvalidCoordinates"
  using ingest_rejects_non_float
          [of "''ABC123''" db_one "[(''longitude'', PFloat (Finite 3 1))]" 100 geo_found]
        ingest_rejects_non_float
          [of "''ABC123''" db_one "coords (PInt 45) (PFloat (Finite 3 1))" 100 geo_found]
        ingest_rejects_non_float
          [of "''ABC123''" db_one "coords (PFloat NaN) (PFloat (Finite 3 1))" 100 geo_found]
  by (simp add: example_defs lookup_defs)

text \<open>
  When the provider cannot be reached, the exception of the request leaves
  \<open>CarPosition.post\<close> and nothing is stored.
\<close>

theorem ingest_geocoder_down:
  "CarPosition_post db_one ''ABC123'' (coords (PFloat (Finite 5 3)) (PFloat (Finite 3 1))) 100
       geo_down =
     (Inl (Unhandled RequestException), db_one)"
  by (simp add: CarPosition_post_def resolve_address_def example_defs lookup_defs)

text \<open>
  C2, as the code has it. For a known plate and valid coordinates (two finite floats), when
  the lookup returns an empty result set (or any other empty value) the position is stored
  with the empty string as its address and the request succeeds; when the lookup itself
  fails, the exception ends the request and the database is unchanged.
\<close>

theorem ingest_geocoding_outcomes:
  assumes "find_by_attribute (has_plate plate) (cars s) = Some car"
      and "dict_get data ''latitude'' PNone = PFloat la"
      and "dict_get data ''longitude'' PNone = PFloat lo"
      and "isfinite la" and "isfinite lo"
  shows "(geo la lo = ReplyJson r \<and> \<not> truthy r \<longrightarrow>
            CarPosition_post s plate data now geo =
              (Inr (Message ''Position saved''),
               s\<lparr>positions := positions s @ [new_position s car la lo now (PStr '''')]\<rparr>)) \<and>
         (geo la lo = RequestFails \<longrightarrow>
            CarPosition_post s plate data now geo = (Inl (Unhandled RequestException), s))"
proof -
  from assms(4,5) have "la \<noteq> NaN" and "lo \<noteq> NaN" by auto
  with assms(1-3) show ?thesis
    by (simp add: CarPosition_post_def resolve_address_def new_position_def commit_error_def)
qed

theorem ingest_geocoding_outcomes_witness:
  "find_by_attribute (has_plate ''ABC123'') (cars db_one) = Some car_abc \<and>
   dict_get (coords (PFloat (Finite 5 3)) (PFloat (Finite 3 1))) ''latitude'' PNone =
     PFloat (Finite 5 3) \<and>
   dict_get (coords (PFloat (Finite 5 3)) (PFloat (Finite 3 1))) ''longitude'' PNone =
     PFloat (Finite 3 1) \<and>
   isfinite (Finite 5 3) \<and> isfinite (Finite 3 1) \<and>
   geo_empty (Finite 5 3) (Finite 3 1) = ReplyJson (PList []) \<and> \<not> truthy (PList []) \<and>
   CarPosition_post db_one ''ABC123'' (coords (PFloat (Finite 5 3)) (PFloat (Finite 3 1))) 100
       geo_empty =
     (Inr (Message ''Position saved''),
      db_one\<lparr>positions :=
        [\<lparr>pid = 1, car_id = Some 1, latitude = Finite 5 3, longitude = Finite 3 1,
          date = 100, address = Some (PStr '''')\<rparr>]\<rparr>) \<and>
   geo_down (Finite 5 3) (Finite 3 1) = RequestFails \<and>
   CarPosition_post db_one ''ABC123'' (coords (PFloat (Finite 5 3)) (PFloat (Finite 3 1))) 100
       geo_down =
     (Inl (Unhandled RequestException), db_one)"
  using ingest_geocoding_outcomes
          [of "''ABC123''" db_one car_abc
              "coords (PFloat (Finite 5 3)) (PFloat (Finite 3 1))" "Finite 5 3" "Finite 3 1"
              geo_empty "PList []" 100]
        ingest_geocoding_outcomes
          [of "''ABC123''" db_one car_abc
              "coords (PFloat (Finite 5 3)) (PFloat (Finite 3 1))" "Finite 5 3" "Finite 3 1"
              geo_down "PList []" 100]
  by (simp add: example_defs lookup_defs new_position_def next_id_def)

text \<open>
  The response of a successful ingestion is the message \<open>'Position saved'\<close>, not the stored
  position.
\<close>

theorem ingest_returns_message:
  "CarPosition_post db_one ''ABC123'' (coords (PFloat (Finite 5 3)) (PFloat (Finite 3 1))) 100
       geo_found =
     (Inr (Message ''Position saved''),
      db_one\<lparr>positions :=
        [\<lparr>pid = 1, car_id = Some 1, latitude = Finite 5 3, longitude = Finite 3 1,
          date = 100, address = Some (PStr ''Broadway, New York'')\<rparr>]\<rparr>) \<and>
   fst (CarPosition_post db_one ''ABC123''
          (coords (PFloat (Finite 5 3)) (PFloat (Finite 3 1))) 100 geo_found) \<noteq>
     Inr (PositionJson
            \<lparr>pid = 1, car_id = Some 1, latitude = Finite 5 3, longitude = Finite 3 1,
             date = 100, address = Some (PStr ''Broadway, New York'')\<rparr>)"
  by (simp add: CarPosition_post_def resolve_address_def commit_error_def example_defs
      lookup_defs next_id_def)

text \<open>
  C5, as the code has it. A successful ingestion is one for a known plate with float
  coordinates; it appends to the positions exactly one row, whose car is that car, whose
  coordinates are those of the request and whose date is the server's \<open>now\<close>, whatever
  else the request body holds; the response is the message \<open>'Position saved'\<close>.
\<close>

theorem ingest_success_shape:
  assumes "CarPosition_post s plate data now geo = (Inr r, s')"
  shows "r = Message ''Position saved'' \<and>
         (\<exists>car la lo a.
            find_by_attribute (has_plate plate) (cars s) = Some car \<and>
            dict_get data ''latitude'' PNone = PFloat la \<and>
            dict_get data ''longitude'' PNone = PFloat lo \<and>
            s' = s\<lparr>positions := positions s @
                   [\<lparr>pid = next_id (map pid (positions s)), car_id = Some (cid car),
                     latitude = la, longitude = lo, date = now, address = Some a\<rparr>]\<rparr>)"
  using ingest_float_coordinates [OF assms]
  by (auto simp: new_position_def)

theorem ingest_success_shape_witness:
  "CarPosition_post db_one ''ABC123'' (coords (PFloat (Finite 5 3)) (PFloat (Finite 3 1))) 100
       geo_found =
     (Inr (Message ''Position saved''),
      db_one\<lparr>positions :=
        [\<lparr>pid = 1, car_id = Some 1, latitude = Finite 5 3, longitude = Finite 3 1,
          date = 100, address = Some (PStr ''Broadway, New York'')\<rparr>]\<rparr>) \<and>
   (\<exists>car la lo a.
      find_by_attribute (has_plate ''ABC123'') (cars db_one) = Some car \<and>
      dict_get (coords (PFloat (Finite 5 3)) (PFloat (Finite 3 1))) ''latitude'' PNone =
        PFloat la \<and>
      dict_get (coords (PFloat (Finite 5 3)) (PFloat (Finite 3 1))) ''longitude'' PNone =
        PFloat lo \<and>
      db_one\<lparr>positions :=
        [\<lparr>pid = 1, car_id = Some 1, latitude = Finite 5 3, longitude = Finite 3 1,
          date = 100, address = Some (PStr ''Broadway, New York'')\<rparr>]\<rparr> =
      db_one\<lparr>positions := positions db_one @
        [\<lparr>pid = next_id (map pid (positions db_one)), car_id = Some (cid car),
          latitude = la, longitude = lo, date = 100, address = Some a\<rparr>]\<rparr>)"
proof -
  have h: "CarPosition_post db_one ''ABC123''
             (coords (PFloat (Finite 5 3)) (PFloat (Finite 3 1))) 100 geo_found =
           (Inr (Message ''Position saved''),
            db_one\<lparr>positions :=
              [\<lparr>pid = 1, car_id = Some 1, latitude = Finite 5 3, longitude = Finite 3 1,
                date = 100, address = Some (PStr ''Broadway, New York'')\<rparr>]\<rparr>)"
    by (simp add: CarPosition_post_def resolve_address_def commit_error_def example_defs
        lookup_defs next_id_def)
  from ingest_success_shape [OF h] h show ?thesis by simp
qed

section \<open>Listing the positions of a car\<close>

text \<open>
  Two ingestions, the second with an earlier clock reading than the first (a clock set
  back between them): the listing has them in the order they were stored, not by date.
\<close>

theorem list_positions_not_by_date:
  "CarPositions_get
     (snd (CarPosition_post
        (snd (CarPosition_post db_one ''ABC123''
           (coords (PFloat (Finite 5 3)) (PFloat (Finite 3 1))) 200 geo_empty))
        ''ABC123'' (coords (PFloat (Finite 5 3)) (PFloat (Finite 3 1))) 100 geo_empty))
     ''ABC123'' =
   Inr (PositionsJson
     [\<lparr>pid = 1, car_id = Some 1, latitude = Finite 5 3, longitude = Finite 3 1,
       date = 200, address = Some (PStr '''')\<rparr>,
      \<lparr>pid = 2, car_id = Some 1, latitude = Finite 5 3, longitude = Finite 3 1,
       date = 100, address = Some (PStr '''')\<rparr>]) \<and>
   \<not> sorted [200, 100 :: datetime]"
  by (simp add: CarPositions_get_def CarPosition_post_def resolve_address_def
      commit_error_def example_defs lookup_defs next_id_def)

text \<open>
  C3, as the code has it. For an unknown plate the listing fails with CarNotFound. For a
  known plate it returns all stored positions of that car, in the order they are stored
  (the order of ingestion); the result is ascending by date whenever the stored positions
  are.
\<close>

theorem list_positions_stored_order:
  "(find_by_attribute (has_plate plate) (cars s) = None \<longrightarrow>
      CarPositions_get s plate = Inl CarNotFound) \<and>
   (find_by_attribute (has_plate plate) (cars s) = Some car \<longrightarrow>
      CarPositions_get s plate =
        Inr (PositionsJson (filter (\<lambda>p. car_id p = Some (cid car)) (positions s))) \<and>
      (sorted (map date (positions s)) \<longrightarrow>
         sorted (map date (filter (\<lambda>p. car_id p = Some (cid car)) (positions s)))))"
  by (auto simp: CarPositions_get_def sorted_filter)

theorem list_positions_stored_order_witness:
  "find_by_attribute (has_plate ''XYZ999'') (cars db_two) = Some car_xyz \<and>
   CarPositions_get db_two ''XYZ999'' = Inr (PositionsJson [pos_a, pos_b]) \<and>
   sorted (map date (positions db_two)) \<and>
   sorted (map date (filter (\<lambda>p. car_id p = Some (cid car_xyz)) (positions db_two))) \<and>
   find_by_attribute (has_plate ''NOPE'') (cars db_two) = None \<and>
   CarPositions_get db_two ''NOPE'' = Inl CarNotFound"
  using list_positions_stored_order [of "''XYZ999''" db_two car_xyz]
        list_positions_stored_order [of "''NOPE''" db_two car_xyz]
  by (simp add: example_defs lookup_defs)

section \<open>Creating, updating and deleting a car\<close>

text \<open>
  C4. A \<open>driver_id\<close> supplied on creation or update has to be the key of a driver. With
  \<open>driver_id = 0\<close> and no driver of key 0, both \<open>Car.post\<close> and \<open>Car.put\<close> store the
  reference, since \<open>if driver_id and ...\<close> takes 0 for an absent value, while
  \<open>AssignDriver.post\<close> refuses the same driver.
\<close>

theorem car_driver_zero_not_validated:
  "find_by_attribute (has_id 0) (drivers db_one) = None \<and>
   Car_post db_one ''XYZ999'' (Some 0) =
     (Inr (CarJson \<lparr>cid = 2, license_plate = ''XYZ999'', driver_id = Some 0\<rparr>),
      db_one\<lparr>cars :=
        [car_abc, \<lparr>cid = 2, license_plate = ''XYZ999'', driver_id = Some 0\<rparr>]\<rparr>) \<and>
   Car_put db_one ''ABC123'' (Some 0) =
     (Inr (CarJson (car_abc\<lparr>driver_id := Some 0\<rparr>)),
      db_one\<lparr>cars := [car_abc\<lparr>driver_id := Some 0\<rparr>]\<rparr>) \<and>
   Car_post db_one ''XYZ999'' (Some 7) = (Inl DriverNotFound, db_one) \<and>
   Car_put db_one ''ABC123'' (Some 7) = (Inl DriverNotFound, db_one) \<and>
   AssignDriver_post db_one ''ABC123'' 0 = (Inl DriverNotFound, db_one)"
  by (simp add: Car_post_def Car_put_def AssignDriver_post_def set_driver_def next_id_def
      Let_def example_defs lookup_defs storage_defs)

text \<open>
  C9. Creating a car with a plate and then creating a car with the same plate again fails
  with DuplicateKey the second time and leaves the database as the first call left it, so
  no second row is added; plates that were pairwise different stay so. The first call is
  any creation that is not refused for its driver, be it for a driver that is not found or
  for a number that the lookup cannot take; one without a driver never is.
\<close>

theorem create_twice_duplicate:
  assumes "fst (Car_post s p v) \<noteq> Inl DriverNotFound"
      and "fst (Car_post s p v) \<noteq> Inl (Unhandled OverflowError)"
  shows "Car_post (snd (Car_post s p v)) p w = (Inl DuplicateKey, snd (Car_post s p v)) \<and>
         (distinct (map license_plate (cars s)) \<longrightarrow>
            distinct (map license_plate (cars (snd (Car_post s p v)))))"
proof (cases "find_by_attribute (has_plate p) (cars s) = None")
  case False
  then show ?thesis by (simp add: Car_post_def)
next
  case True
  with assms have ok: "check_driver s v = None"
    by (auto simp: Car_post_def check_driver_def find_driver_def
        split: option.splits if_splits sum.splits)
  from True have fresh: "p \<notin> set (map license_plate (cars s))" by (simp add: find_plate_None)
  from True ok fresh show ?thesis
    by (simp add: Car_post_def Let_def find_append_plate)
qed

theorem create_twice_duplicate_witness:
  "fst (Car_post db_empty ''ABC123'' None) \<noteq> Inl DriverNotFound \<and>
   fst (Car_post db_empty ''ABC123'' None) \<noteq> Inl (Unhandled OverflowError) \<and>
   Car_post db_empty ''ABC123'' None = (Inr (CarJson car_abc), db_empty\<lparr>cars := [car_abc]\<rparr>) \<and>
   Car_post (snd (Car_post db_empty ''ABC123'' None)) ''ABC123'' None =
     (Inl DuplicateKey, db_empty\<lparr>cars := [car_abc]\<rparr>) \<and>
   distinct (map license_plate (cars db_empty)) \<and>
   distinct (map license_plate (cars (snd (Car_post db_empty ''ABC123'' None))))"
  using create_twice_duplicate [of db_empty "''ABC123''" None None]
  by (simp add: Car_post_def check_driver_def next_id_def Let_def example_defs lookup_defs)

lemma create_without_driver:
  "fst (Car_post s p None) \<noteq> Inl DriverNotFound \<and>
   fst (Car_post s p None) \<noteq> Inl (Unhandled OverflowError)"
  by (simp add: Car_post_def check_driver_def Let_def)

text \<open>
  C10. Deleting a car removes the row of that car and nothing else: all positions, those of
  the deleted car among them, and all drivers stay, and the other cars are unchanged. The
  keys of the cars are pairwise different, as a primary key is.
\<close>

theorem delete_car_only:
  assumes "find_by_attribute (has_plate plate) (cars s) = Some car"
      and "distinct (map cid (cars s))"
  shows "fst (Car_delete s plate) = Inr (Message ''Car deleted'') \<and>
         positions (snd (Car_delete s plate)) = positions s \<and>
         drivers (snd (Car_delete s plate)) = drivers s \<and>
         cars (snd (Car_delete s plate)) = remove1 car (cars s)"
  using assms find_has_plate [OF assms(1)]
  by (simp add: Car_delete_def delete_car_remove1)

theorem delete_car_only_witness:
  "find_by_attribute (has_plate ''XYZ999'') (cars db_two) = Some car_xyz \<and>
   distinct (map cid (cars db_two)) \<and>
   filter (\<lambda>p. car_id p = Some (cid car_xyz)) (positions db_two) = [pos_a, pos_b] \<and>
   fst (Car_delete db_two ''XYZ999'') = Inr (Message ''Car deleted'') \<and>
   positions (snd (Car_delete db_two ''XYZ999'')) = [pos_a, pos_b] \<and>
   drivers (snd (Car_delete db_two ''XYZ999'')) = [alice] \<and>
   cars (snd (Car_delete db_two ''XYZ999'')) = [car_abc]"
  using delete_car_only [of "''XYZ999''" db_two car_xyz]
  by (simp add: example_defs lookup_defs)

section \<open>Assigning a driver\<close>




text \<open>
  C8. Assigning is idempotent: for a known car and an existing driver the assignment
  succeeds and the car then refers to that driver; assigning the same driver again succeeds
  as well and leaves the database exactly as the first call left it.
\<close>

theorem assign_idempotent:
  assumes "find_by_attribute (has_plate plate) (cars s) = Some car"
      and "find_by_attribute (has_id k) (drivers s) \<noteq> None"
  shows "fst (AssignDriver_post s plate k) = Inr (Message ''Driver assigned'') \<and>
         find_by_attribute (has_plate plate) (cars (snd (AssignDriver_post s plate k))) =
           Some (car\<lparr>driver_id := Some k\<rparr>) \<and>
         AssignDriver_post (snd (AssignDriver_post s plate k)) plate k =
           (Inr (Message ''Driver assigned''), snd (AssignDriver_post s plate k))"
proof -
  from assms(2) obtain d where d: "find_by_attribute (has_id k) (drivers s) = Some d"
    by auto
  then have "in_int64 k" by (rule found_driver_in_range)
  with assms(1) d show ?thesis
    by (simp add: AssignDriver_post_def find_driver_def find_set_driver set_driver_twice)
qed

theorem assign_idempotent_witness:
  "find_by_attribute (has_plate ''ABC123'') (cars db_one) = Some car_abc \<and>
   find_by_attribute (has_id 1) (drivers db_one) \<noteq> None \<and>
   AssignDriver_post db_one ''ABC123'' 1 =
     (Inr (Message ''Driver assigned''), db_one\<lparr>cars := [car_abc\<lparr>driver_id := Some 1\<rparr>]\<rparr>) \<and>
   find_by_attribute (has_plate ''ABC123'')
       (cars (snd (AssignDriver_post db_one ''ABC123'' 1))) =
     Some (car_abc\<lparr>driver_id := Some 1\<rparr>) \<and>
   AssignDriver_post (snd (AssignDriver_post db_one ''ABC123'' 1)) ''ABC123'' 1 =
     (Inr (Message ''Driver assigned''), db_one\<lparr>cars := [car_abc\<lparr>driver_id := Some 1\<rparr>]\<rparr>)"
  using assign_idempotent [of "''ABC123''" db_one car_abc 1]
  by (simp add: AssignDriver_post_def set_driver_def example_defs lookup_defs storage_defs)

text \<open>
  C6. For a known car, removing the assignment of a driver fails with AssignmentMismatch
  and leaves the database unchanged whenever the car's current driver is not that driver,
  also when the car has no driver; when the car's current driver is that driver, the
  reference is cleared, and drivers and positions are untouched.
\<close>

theorem unassign_checks_driver:
  assumes "find_by_attribute (has_plate plate) (cars s) = Some car"
  shows "(driver_id car \<noteq> Some k \<longrightarrow>
            AssignDriver_delete s plate k = (Inl AssignmentMismatch, s)) \<and>
         (driver_id car = Some k \<longrightarrow>
            fst (AssignDriver_delete s plate k) = Inr (Message ''Driver assignment deleted'') \<and>
            find_by_attribute (has_plate plate) (cars (snd (AssignDriver_delete s plate k))) =
              Some (car\<lparr>driver_id := None\<rparr>) \<and>
            drivers (snd (AssignDriver_delete s plate k)) = drivers s \<and>
            positions (snd (AssignDriver_delete s plate k)) = positions s)"
  using assms
  by (auto simp: AssignDriver_delete_def find_set_driver)

theorem unassign_checks_driver_witness:
  "find_by_attribute (has_plate ''ABC123'') (cars db_two) = Some car_abc \<and>
   driver_id car_abc = None \<and>
   AssignDriver_delete db_two ''ABC123'' 1 = (Inl AssignmentMismatch, db_two) \<and>
   find_by_attribute (has_plate ''XYZ999'') (cars db_two) = Some car_xyz \<and>
   driver_id car_xyz = Some 1 \<and>
   AssignDriver_delete db_two ''XYZ999'' 7 = (Inl AssignmentMismatch, db_two) \<and>
   fst (AssignDriver_delete db_two ''XYZ999'' 1) = Inr (Message ''Driver assignment deleted'') \<and>
   find_by_attribute (has_plate ''XYZ999'') (cars (snd (AssignDriver_delete db_two ''XYZ999'' 1))) =
     Some (car_xyz\<lparr>driver_id := None\<rparr>)"
  using unassign_checks_driver [of "''ABC123''" db_two car_abc 1]
        unassign_checks_driver [of "''XYZ999''" db_two car_xyz 7]
        unassign_checks_driver [of "''XYZ999''" db_two car_xyz 1]
  by (simp add: example_defs lookup_defs)

end
